theory Spec2Isabelle
  imports Main
begin

section \<open>Python values used by EmailFollowUpApp\<close>

text \<open>
  Strings are byte strings (\<open>char list\<close>). Timestamps (\<open>datetime\<close>) are whole seconds on
  one clock, so \<open>timedelta(days=d)\<close> is \<open>d * 86400\<close>. Exceptions are values: a function
  that can raise returns \<open>exn + 'a\<close>, with \<open>Inl\<close> for the exception raised.
\<close>

datatype exn =
    IntegrityError        \<comment> \<open>\<open>sqlite3.IntegrityError\<close>, a subclass of \<open>sqlite3.Error\<close>\<close>
  | OverflowError         \<comment> \<open>binding a Python int outside 64 bits to an SQL parameter\<close>
  | IMAP4_error           \<comment> \<open>\<open>imaplib.IMAP4.error\<close>\<close>
  | OtherException string \<comment> \<open>any other subclass of \<open>Exception\<close>, by name\<close>

type_synonym datetime = int

definition timedelta_days :: "int \<Rightarrow> int" where
  "timedelta_days d = d * 86400"

text \<open>\<open>str.startswith\<close> and the substring test \<open>needle in haystack\<close>.\<close>

fun startswith :: "string \<Rightarrow> string \<Rightarrow> bool" where
  "startswith s [] = True"
| "startswith [] (p # ps) = False"
| "startswith (c # cs) (p # ps) = (c = p \<and> startswith cs ps)"

fun str_in :: "string \<Rightarrow> string \<Rightarrow> bool" where
  "str_in needle [] = (needle = [])"
| "str_in needle (c # cs) = (startswith (c # cs) needle \<or> str_in needle cs)"

text \<open>
  \<open>str.lower\<close> on the ASCII letters; the other bytes (and so every character outside
  ASCII, which is several bytes in UTF-8) are left as they are.
\<close>

definition lower_char :: "char \<Rightarrow> char" where
  "lower_char c =
     (case map_of (zip ''ABCDEFGHIJKLMNOPQRSTUVWXYZ'' ''abcdefghijklmnopqrstuvwxyz'') c of
        Some l \<Rightarrow> l
      | None \<Rightarrow> c)"

definition lower :: "string \<Rightarrow> string" where
  "lower s = map lower_char s"

text \<open>The decimal text of an integer, as \<open>str(n)\<close> and as SQLite's conversion to TEXT write it.\<close>

definition digit_char :: "nat \<Rightarrow> char" where
  "digit_char d = ''0123456789'' ! d"

function text_of_nat :: "nat \<Rightarrow> string" where
  "text_of_nat n =
     (if n < 10 then [digit_char n] else text_of_nat (n div 10) @ [digit_char (n mod 10)])"
  by pat_completeness auto
termination
  by (relation "measure (\<lambda>n. n)") auto

definition text_of_int :: "int \<Rightarrow> string" where
  "text_of_int i = (if i < 0 then CHR ''-'' # text_of_nat (nat (- i)) else text_of_nat (nat i))"

definition fits_int64 :: "int \<Rightarrow> bool" where
  "fits_int64 i = (- (2 ^ 63) \<le> i \<and> i < 2 ^ 63)"


section \<open>utils.py\<close>

text \<open>
  \<open>hashlib.md5(...).hexdigest()\<close> and \<open>datetime.isoformat()\<close> are library functions; they
  are parameters of \<open>generate_email_id\<close>.
\<close>

definition calculate_followup_date :: "datetime \<Rightarrow> int \<Rightarrow> datetime" where
  "calculate_followup_date sent_date delay_days = sent_date + timedelta_days delay_days"

definition generate_email_id ::
  "(string \<Rightarrow> string) \<Rightarrow> (datetime \<Rightarrow> string) \<Rightarrow> string \<Rightarrow> string \<Rightarrow> datetime \<Rightarrow> string" where
  "generate_email_id md5_hexdigest isoformat sender subject date =
     md5_hexdigest (sender @ subject @ isoformat date)"


section \<open>database.py: the \<open>followups\<close> table\<close>

record metadata =
  original_message_id :: "string option"
  template_name :: string
  custom_variables :: "(string \<times> string) list"

text \<open>One row of \<open>followups\<close>. The column \<open>id\<close> is \<open>row_id\<close> here.\<close>

record followup =
  row_id :: int
  email_id :: string
  sender :: string
  recipient :: string
  subject :: string
  sent_date :: datetime
  followup_date :: datetime
  delay_days :: int
  status :: string
  followup_count :: int
  last_check_date :: "datetime option"
  meta :: metadata

text \<open>The argument of \<open>DatabaseManager.add_followup\<close>.\<close>

record followup_data =
  fd_email_id :: string
  fd_sender :: string
  fd_recipient :: string
  fd_subject :: string
  fd_sent_date :: datetime
  fd_followup_date :: datetime
  fd_delay_days :: int
  fd_metadata :: metadata

text \<open>
  The table is the list of its rows in insertion order, with the counter of
  \<open>AUTOINCREMENT\<close> (the largest row id ever given out).
\<close>

record database =
  rows :: "followup list"
  last_rowid :: int

definition empty_database :: database where
  "empty_database = \<lparr> rows = [], last_rowid = 0 \<rparr>"

definition new_row :: "int \<Rightarrow> followup_data \<Rightarrow> followup" where
  "new_row i d =
     \<lparr> row_id = i, email_id = fd_email_id d, sender = fd_sender d,
       recipient = fd_recipient d, subject = fd_subject d, sent_date = fd_sent_date d,
       followup_date = fd_followup_date d, delay_days = fd_delay_days d,
       status = ''pending'', followup_count = 0, last_check_date = None,
       meta = fd_metadata d \<rparr>"

text \<open>
  \<open>INSERT INTO followups ...\<close> with status \<open>'pending'\<close>. The column \<open>email_id\<close> is
  \<open>UNIQUE\<close>: a second row with the same value raises \<open>IntegrityError\<close>, the transaction is
  rolled back and the exception is raised again to the caller.
\<close>

definition db_add_followup :: "database \<Rightarrow> followup_data \<Rightarrow> (exn + int) \<times> database" where
  "db_add_followup d fd =
     (if fd_email_id fd \<in> set (map email_id (rows d)) then (Inl IntegrityError, d)
      else let i = last_rowid d + 1
           in (Inr i, \<lparr> rows = rows d @ [new_row i fd], last_rowid = i \<rparr>))"

text \<open>
  \<open>UPDATE followups SET status = ?, [followup_count = followup_count + 1,]
  last_check_date = CURRENT_TIMESTAMP WHERE id = ?\<close>. The result \<open>True\<close> is the same on
  every path that does not raise, and no caller reads it.
\<close>

definition update_row :: "datetime \<Rightarrow> string \<Rightarrow> bool \<Rightarrow> followup \<Rightarrow> followup" where
  "update_row now new_status increment_count r =
     r \<lparr> status := new_status,
         followup_count := (if increment_count then followup_count r + 1 else followup_count r),
         last_check_date := Some now \<rparr>"

definition update_followup_status ::
  "database \<Rightarrow> datetime \<Rightarrow> int \<Rightarrow> string \<Rightarrow> bool \<Rightarrow> exn + database" where
  "update_followup_status d now followup_id new_status increment_count =
     (if \<not> fits_int64 followup_id then Inl OverflowError
      else Inr (d \<lparr> rows :=
             map (\<lambda>r. if row_id r = followup_id
                       then update_row now new_status increment_count r else r) (rows d) \<rparr>))"

text \<open>
  \<open>SELECT * FROM followups WHERE status = 'pending' AND followup_date <= CURRENT_TIMESTAMP
  ORDER BY followup_date ASC\<close>.
\<close>

definition get_pending_followups :: "database \<Rightarrow> datetime \<Rightarrow> followup list" where
  "get_pending_followups d now =
     sort_key followup_date
       (filter (\<lambda>r. status r = ''pending'' \<and> followup_date r \<le> now) (rows d))"

text \<open>
  \<open>SELECT * FROM followups WHERE email_id = ?\<close>, first row. The callers in this
  repository bind an integer (\<open>followup_id: int\<close>, the \<open>id\<close> of a row) to the parameter.
  The column has TEXT affinity, so SQLite compares it with the decimal text of the integer.
\<close>

definition get_followup_by_email_id :: "database \<Rightarrow> int \<Rightarrow> exn + followup option" where
  "get_followup_by_email_id d followup_id =
     (if \<not> fits_int64 followup_id then Inl OverflowError
      else Inr (find (\<lambda>r. email_id r = text_of_int followup_id) (rows d)))"


section \<open>config.py\<close>

text \<open>\<open>AUTO_REPLY_PATTERNS\<close>; the letter e with acute accent is the two bytes C3 A9 of UTF-8.\<close>

definition AUTO_REPLY_PATTERNS :: "string list" where
  "AUTO_REPLY_PATTERNS =
     [''absent du bureau'',
      ''out of office'',
      ''en cong'' @ [CHR 0xC3, CHR 0xA9] @ ''s'',
      ''automatique'',
      ''automatic reply'',
      ''vacation response'',
      ''accus'' @ [CHR 0xC3, CHR 0xA9] @ '' de r'' @ [CHR 0xC3, CHR 0xA9] @ ''ception automatique'',
      ''message automatique'']"

text \<open>\<open>APP_SETTINGS['max_retries']\<close> and \<open>APP_SETTINGS['check_interval']\<close> (seconds).\<close>

definition max_retries :: int where
  "max_retries = 3"

definition check_interval :: int where
  "check_interval = 1800"


section \<open>The state of the program and its surroundings\<close>

text \<open>The dictionary that \<open>IMAPClient._parse_email_message\<close> returns.\<close>

record parsed_message =
  msg_subject :: string
  msg_from :: string
  msg_date :: datetime
  body :: string
  message_id :: string
  in_reply_to :: string
  references :: string
  headers :: "(string \<times> string) list"  \<comment> \<open>\<open>dict(message.items())\<close>: names as the message spells them\<close>

text \<open>A message handed to the SMTP server by \<open>SMTPClient.send_followup\<close>.\<close>

record sent_email =
  to_email :: string
  email_subject :: string
  transport_id :: string

text \<open>The lines the email manager and the IMAP client write to the log.\<close>

datatype log_entry =
    Info_added_followup int
  | Error_adding_followup exn
  | Error_followup_not_found int
  | Info_response_found int
  | Error_checking_for_responses exn
  | Info_response_already_received int
  | Info_followup_sent int
  | Error_failed_to_send_followup int
  | Error_sending_followup exn
  | Error_processing_pending_followups exn
  | Error_not_connected_to_imap
  | Error_checking_for_replies

text \<open>
  What the program does not decide is read from \<open>env\<close>. The mail servers can answer
  differently each time they are asked, so their answers are indexed by the number of
  requests made so far (\<open>tick\<close>):
  \<^item> \<open>imap_search_fetch n subject\<close> is what selecting the inbox, searching it for the
    subject, fetching and parsing every hit gives at request \<open>n\<close>: the parsed messages, or
    the exception raised on the way;
  \<^item> \<open>smtp_send_followup n followup\<close> is what rendering the template for the row and
    \<open>SMTPClient.send_followup\<close> give at request \<open>n\<close>: \<open>Inr (Some id)\<close> when the message was
    handed over, \<open>Inr None\<close> when the client reports failure (not connected, invalid
    recipient, \<open>SMTPException\<close>, \<open>KeyError\<close> or \<open>ValueError\<close> in the template), \<open>Inl\<close> when
    an exception escapes;
  \<^item> \<open>current_timestamp n\<close> is SQLite's \<open>CURRENT_TIMESTAMP\<close> after \<open>n\<close> requests.
\<close>

record env =
  md5_hexdigest :: "string \<Rightarrow> string"
  isoformat :: "datetime \<Rightarrow> string"
  current_timestamp :: "nat \<Rightarrow> datetime"
  imap_search_fetch :: "nat \<Rightarrow> string \<Rightarrow> exn + parsed_message list"
  smtp_send_followup :: "nat \<Rightarrow> followup \<Rightarrow> exn + string option"

record engine =
  db :: database
  imap_is_connected :: bool
  tick :: nat
  outbox :: "sent_email list"
  logged :: "log_entry list"

definition write_log :: "log_entry \<Rightarrow> engine \<Rightarrow> engine" where
  "write_log l st = st \<lparr> logged := logged st @ [l] \<rparr>"

definition next_tick :: "engine \<Rightarrow> engine" where
  "next_tick st = st \<lparr> tick := tick st + 1 \<rparr>"


section \<open>imap_client.py\<close>

definition auto_reply_headers :: "string list" where
  "auto_reply_headers =
     [''auto-submitted'', ''x-auto-response-suppress'', ''x-autorespond'', ''x-autoreply'']"

text \<open>
  \<open>IMAPClient._is_auto_reply\<close>. \<open>header in headers\<close> is membership among the keys of a
  plain dictionary.
\<close>

definition is_auto_reply :: "parsed_message \<Rightarrow> bool" where
  "is_auto_reply email_info =
     (let hs = headers email_info; b = lower (body email_info)
      in list_ex (\<lambda>header. header \<in> set (map fst hs)) auto_reply_headers
         \<or> list_ex (\<lambda>pattern. str_in (lower pattern) b) AUTO_REPLY_PATTERNS)"

definition is_reply_to :: "string \<Rightarrow> parsed_message \<Rightarrow> bool" where
  "is_reply_to original_email_id email_info =
     (str_in original_email_id (references email_info)
      \<or> str_in original_email_id (in_reply_to email_info))"

text \<open>
  \<open>IMAPClient.check_for_replies\<close>: the list of the messages that refer to the original
  email and are not automatic replies. An \<open>IMAP4.error\<close> gives the empty list; any other
  exception goes to the caller.
\<close>

definition check_for_replies ::
  "env \<Rightarrow> engine \<Rightarrow> string \<Rightarrow> string \<Rightarrow> (exn + parsed_message list) \<times> engine" where
  "check_for_replies e st original_email_id subj =
     (if \<not> imap_is_connected st then (Inr [], write_log Error_not_connected_to_imap st)
      else case imap_search_fetch e (tick st) subj of
             Inr msgs \<Rightarrow>
               (Inr (filter (\<lambda>m. is_reply_to original_email_id m \<and> \<not> is_auto_reply m) msgs),
                next_tick st)
           | Inl IMAP4_error \<Rightarrow> (Inr [], write_log Error_checking_for_replies (next_tick st))
           | Inl x \<Rightarrow> (Inl x, next_tick st))"


section \<open>email_manager.py\<close>

text \<open>The argument of \<open>EmailManager.add_followup\<close>; the last three keys are optional.\<close>

record email_data =
  ed_sender :: string
  ed_recipient :: string
  ed_subject :: string
  ed_sent_date :: datetime
  ed_delay_days :: int
  ed_message_id :: "string option"
  ed_template_name :: "string option"
  ed_template_variables :: "(string \<times> string) list option"

definition make_followup_data :: "env \<Rightarrow> email_data \<Rightarrow> followup_data" where
  "make_followup_data e d =
     \<lparr> fd_email_id =
         generate_email_id (md5_hexdigest e) (isoformat e)
           (ed_sender d) (ed_subject d) (ed_sent_date d),
       fd_sender = ed_sender d,
       fd_recipient = ed_recipient d,
       fd_subject = ed_subject d,
       fd_sent_date = ed_sent_date d,
       fd_followup_date = calculate_followup_date (ed_sent_date d) (ed_delay_days d),
       fd_delay_days = ed_delay_days d,
       fd_metadata =
         \<lparr> original_message_id = ed_message_id d,
           template_name = (case ed_template_name d of None \<Rightarrow> ''default'' | Some n \<Rightarrow> n),
           custom_variables = (case ed_template_variables d of None \<Rightarrow> [] | Some vs \<Rightarrow> vs) \<rparr> \<rparr>"

text \<open>
  \<open>EmailManager.add_followup\<close>: the id of the new row, or \<open>None\<close> when the store raised.
\<close>

definition add_followup :: "env \<Rightarrow> engine \<Rightarrow> email_data \<Rightarrow> int option \<times> engine" where
  "add_followup e st d =
     (case db_add_followup (db st) (make_followup_data e d) of
        (Inr followup_id, d') \<Rightarrow>
          (Some followup_id, write_log (Info_added_followup followup_id) (st \<lparr> db := d' \<rparr>))
      | (Inl x, d') \<Rightarrow> (None, write_log (Error_adding_followup x) (st \<lparr> db := d' \<rparr>)))"

text \<open>
  \<open>EmailManager.check_for_responses\<close>, first the body of its \<open>try\<close>, then the whole
  method, whose \<open>except Exception\<close> logs and returns \<open>False\<close>.
\<close>

definition check_for_responses_try :: "env \<Rightarrow> engine \<Rightarrow> int \<Rightarrow> (exn + bool) \<times> engine" where
  "check_for_responses_try e st followup_id =
     (case get_followup_by_email_id (db st) followup_id of
        Inl x \<Rightarrow> (Inl x, st)
      | Inr None \<Rightarrow> (Inr False, write_log (Error_followup_not_found followup_id) st)
      | Inr (Some followup) \<Rightarrow>
          (case check_for_replies e st (email_id followup) (subject followup) of
             (Inl x, st1) \<Rightarrow> (Inl x, st1)
           | (Inr replies, st1) \<Rightarrow>
               if replies \<noteq> [] then
                 (case update_followup_status (db st1) (current_timestamp e (tick st1))
                         followup_id ''responded'' False of
                    Inl x \<Rightarrow> (Inl x, st1)
                  | Inr d' \<Rightarrow>
                      (Inr True, write_log (Info_response_found followup_id) (st1 \<lparr> db := d' \<rparr>)))
               else (Inr False, st1)))"

definition check_for_responses :: "env \<Rightarrow> engine \<Rightarrow> int \<Rightarrow> (exn + bool) \<times> engine" where
  "check_for_responses e st followup_id =
     (case check_for_responses_try e st followup_id of
        (Inl x, st1) \<Rightarrow> (Inr False, write_log (Error_checking_for_responses x) st1)
      | (Inr b, st1) \<Rightarrow> (Inr b, st1))"

text \<open>\<open>EmailManager.send_followup\<close>, in the same two steps.\<close>

definition send_followup_try :: "env \<Rightarrow> engine \<Rightarrow> int \<Rightarrow> (exn + bool) \<times> engine" where
  "send_followup_try e st followup_id =
     (case get_followup_by_email_id (db st) followup_id of
        Inl x \<Rightarrow> (Inl x, st)
      | Inr None \<Rightarrow> (Inr False, write_log (Error_followup_not_found followup_id) st)
      | Inr (Some followup) \<Rightarrow>
          (case check_for_responses e st followup_id of
             (Inl x, st1) \<Rightarrow> (Inl x, st1)
           | (Inr True, st1) \<Rightarrow>
               (Inr True, write_log (Info_response_already_received followup_id) st1)
           | (Inr False, st1) \<Rightarrow>
               (case smtp_send_followup e (tick st1) followup of
                  Inl x \<Rightarrow> (Inl x, next_tick st1)
                | Inr None \<Rightarrow>
                    (Inr False,
                     write_log (Error_failed_to_send_followup followup_id) (next_tick st1))
                | Inr (Some mid) \<Rightarrow>
                    (let st2 = (next_tick st1)
                           \<lparr> outbox := outbox st1 @
                               [\<lparr> to_email = recipient followup,
                                  email_subject = ''Re: '' @ subject followup,
                                  transport_id = mid \<rparr>] \<rparr>
                     in case update_followup_status (db st2) (current_timestamp e (tick st2))
                               followup_id ''sent'' True of
                          Inl x \<Rightarrow> (Inl x, st2)
                        | Inr d' \<Rightarrow>
                            (Inr True,
                             write_log (Info_followup_sent followup_id) (st2 \<lparr> db := d' \<rparr>))))))"

definition send_followup :: "env \<Rightarrow> engine \<Rightarrow> int \<Rightarrow> (exn + bool) \<times> engine" where
  "send_followup e st followup_id =
     (case send_followup_try e st followup_id of
        (Inl x, st1) \<Rightarrow> (Inr False, write_log (Error_sending_followup x) st1)
      | (Inr b, st1) \<Rightarrow> (Inr b, st1))"

text \<open>
  \<open>EmailManager.process_pending_followups\<close>. The loop runs over the rows that the query
  returned; an exception that reaches the loop ends it, and the \<open>except\<close> around the loop
  logs it.
\<close>

fun process_loop :: "env \<Rightarrow> engine \<Rightarrow> followup list \<Rightarrow> exn option \<times> engine" where
  "process_loop e st [] = (None, st)"
| "process_loop e st (followup # pending) =
     (case check_for_responses e st (row_id followup) of
        (Inl x, st1) \<Rightarrow> (Some x, st1)
      | (Inr True, st1) \<Rightarrow> process_loop e st1 pending
      | (Inr False, st1) \<Rightarrow>
          (case send_followup e st1 (row_id followup) of
             (Inl x, st2) \<Rightarrow> (Some x, st2)
           | (Inr sent, st2) \<Rightarrow> process_loop e st2 pending))"

definition process_pending_followups :: "env \<Rightarrow> engine \<Rightarrow> exn option \<times> engine" where
  "process_pending_followups e st =
     (case process_loop e st (get_pending_followups (db st) (current_timestamp e (tick st))) of
        (Some x, st1) \<Rightarrow> (None, write_log (Error_processing_pending_followups x) st1)
      | (None, st1) \<Rightarrow> (None, st1))"


section \<open>scheduler.py\<close>

text \<open>
  The signals of \<open>Scheduler\<close> that the modelled methods emit, and the lines they log.
  \<open>Error_occurred x\<close> is \<open>error_occurred.emit("Email check failed: ...")\<close> for the
  exception \<open>x\<close>.
\<close>

datatype signal =
    Check_started
  | Check_completed bool
  | Error_occurred exn

datatype scheduler_log =
    Info_scheduler_started
  | Warning_already_running
  | Info_scheduler_stopped
  | Warning_not_running
  | Error_during_email_check exn
  | Error_maximum_error_count_reached
  | Info_forced_check_initiated
  | Warning_cannot_force_check

text \<open>
  The scheduler holds the email manager (\<open>'m\<close> is its state) and a \<open>QTimer\<close>: the timer
  has an interval in milliseconds and, while it is active, the time at which it fires
  next. Time is the reading \<open>now\<close> of one clock in milliseconds, passed to each method.
\<close>

record 'm scheduler =
  email_manager :: 'm
  timer_interval :: int
  timer_fires_at :: "int option"
  is_running :: bool
  last_check :: "int option"
  error_count :: int
  max_errors :: int
  emitted :: "signal list"
  scheduler_logged :: "scheduler_log list"

definition new_scheduler :: "'m \<Rightarrow> 'm scheduler" where
  "new_scheduler m =
     \<lparr> email_manager = m, timer_interval = 0, timer_fires_at = None, is_running = False,
       last_check = None, error_count = 0, max_errors = max_retries, emitted = [],
       scheduler_logged = [] \<rparr>"

definition emit :: "signal \<Rightarrow> 'm scheduler \<Rightarrow> 'm scheduler" where
  "emit sig s = s \<lparr> emitted := emitted s @ [sig] \<rparr>"

definition log_scheduler :: "scheduler_log \<Rightarrow> 'm scheduler \<Rightarrow> 'm scheduler" where
  "log_scheduler l s = s \<lparr> scheduler_logged := scheduler_logged s @ [l] \<rparr>"

text \<open>\<open>Scheduler.stop\<close>.\<close>

definition stop :: "'m scheduler \<Rightarrow> 'm scheduler" where
  "stop s =
     (if is_running s
      then log_scheduler Info_scheduler_stopped (s \<lparr> timer_fires_at := None, is_running := False \<rparr>)
      else log_scheduler Warning_not_running s)"

text \<open>
  \<open>Scheduler.check_emails\<close>. The method \<open>process_pending_followups\<close> of the email manager
  is the parameter \<open>process\<close>: it returns the manager's new state and the exception it
  raised, if any.
\<close>

definition check_emails ::
  "('m \<Rightarrow> exn option \<times> 'm) \<Rightarrow> int \<Rightarrow> 'm scheduler \<Rightarrow> 'm scheduler" where
  "check_emails process now s =
     (let s1 = emit Check_started s
      in case process (email_manager s1) of
           (None, m) \<Rightarrow>
             emit (Check_completed True)
               (s1 \<lparr> email_manager := m, last_check := Some now, error_count := 0 \<rparr>)
         | (Some x, m) \<Rightarrow>
             (let s2 = emit (Error_occurred x)
                         (emit (Check_completed False)
                            (log_scheduler (Error_during_email_check x)
                               (s1 \<lparr> email_manager := m, error_count := error_count s1 + 1 \<rparr>)))
              in if error_count s2 \<ge> max_errors s2
                 then stop (log_scheduler Error_maximum_error_count_reached s2)
                 else s2))"

text \<open>\<open>Scheduler.start\<close>.\<close>

definition start ::
  "('m \<Rightarrow> exn option \<times> 'm) \<Rightarrow> int \<Rightarrow> 'm scheduler \<Rightarrow> 'm scheduler" where
  "start process now s =
     (if \<not> is_running s
      then check_emails process now
             (log_scheduler Info_scheduler_started
                (s \<lparr> timer_interval := check_interval * 1000,
                    timer_fires_at := Some (now + check_interval * 1000),
                    is_running := True,
                    last_check := Some now,
                    error_count := 0 \<rparr>))
      else log_scheduler Warning_already_running s)"

text \<open>\<open>Scheduler.force_check\<close>.\<close>

definition force_check ::
  "('m \<Rightarrow> exn option \<times> 'm) \<Rightarrow> int \<Rightarrow> 'm scheduler \<Rightarrow> 'm scheduler" where
  "force_check process now s =
     (if is_running s
      then (let s1 = check_emails process now (s \<lparr> timer_fires_at := None \<rparr>)
            in log_scheduler Info_forced_check_initiated
                 (s1 \<lparr> timer_fires_at := Some (now + timer_interval s1) \<rparr>))
      else log_scheduler Warning_cannot_force_check s)"

definition error_notifications :: "'m scheduler \<Rightarrow> signal list" where
  "error_notifications s =
     filter (\<lambda>sig. case sig of Error_occurred x \<Rightarrow> True | _ \<Rightarrow> False) (emitted s)"


section \<open>Notions used in the statements\<close>

text \<open>
  What one pass of the loop in \<open>process_pending_followups\<close> does with one row when nothing
  interrupts it: check for a response, and send the follow-up unless one was found.
\<close>

definition handle_followup :: "env \<Rightarrow> engine \<Rightarrow> followup \<Rightarrow> engine" where
  "handle_followup e st followup =
     (case check_for_responses e st (row_id followup) of
        (Inr False, st1) \<Rightarrow> snd (send_followup e st1 (row_id followup))
      | (r, st1) \<Rightarrow> st1)"



text \<open>Every key of the table has the 32 characters of an MD5 digest in hexadecimal.\<close>

definition digest_keys :: "database \<Rightarrow> bool" where
  "digest_keys d = list_all (\<lambda>r. length (email_id r) = 32) (rows d)"


section \<open>Scenarios\<close>

text \<open>
  A connected client with an empty table, and the registration of one email sent on
  2024-01-01 09:00:00 (1704099600) with a delay of 7 days. \<open>report_key\<close> is the MD5
  digest of \<open>alice@example.comQuarterly report2024-01-01T09:00:00\<close>, the string that
  \<open>generate_email_id\<close> hashes for it. In \<open>quiet_env\<close> the clock stands at the sent date
  plus 7 days, the mailbox never holds a message and the SMTP server accepts everything.
\<close>

definition initial_engine :: engine where
  "initial_engine =
     \<lparr> db = empty_database, imap_is_connected = True, tick = 0, outbox = [], logged = [] \<rparr>"

definition report_key :: string where
  "report_key = ''4e2498826cc9ff42d43f2a52c2354b55''"

definition report_email :: email_data where
  "report_email =
     \<lparr> ed_sender = ''alice@example.com'', ed_recipient = ''bob@example.org'',
       ed_subject = ''Quarterly report'', ed_sent_date = 1704099600, ed_delay_days = 7,
       ed_message_id = Some ''<original-1@example.com>'', ed_template_name = None,
       ed_template_variables = None \<rparr>"

definition quiet_env :: env where
  "quiet_env =
     \<lparr> md5_hexdigest = (\<lambda>s. report_key),
       isoformat = (\<lambda>t. ''2024-01-01T09:00:00''),
       current_timestamp = (\<lambda>n. 1704099600 + 7 * 86400),
       imap_search_fetch = (\<lambda>n subj. Inr []),
       smtp_send_followup = (\<lambda>n followup. Inr (Some ''followup-1@example.com'')) \<rparr>"

definition registered_engine :: engine where
  "registered_engine = snd (add_followup quiet_env initial_engine report_email)"

definition genuine_reply :: parsed_message where
  "genuine_reply =
     \<lparr> msg_subject = ''Re: Quarterly report'', msg_from = ''bob@example.org'',
       msg_date = 1704186000, body = ''Thanks, I will read it this week.'',
       message_id = ''<reply-1@example.org>'',
       in_reply_to = ''<4e2498826cc9ff42d43f2a52c2354b55@example.com>'',
       references = ''<4e2498826cc9ff42d43f2a52c2354b55@example.com>'',
       headers = [(''From'', ''bob@example.org''), (''Subject'', ''Re: Quarterly report'')] \<rparr>"

definition reply_env :: env where
  "reply_env = quiet_env \<lparr> imap_search_fetch := (\<lambda>n subj. Inr [genuine_reply]) \<rparr>"

definition vacation_notice :: parsed_message where
  "vacation_notice =
     genuine_reply
       \<lparr> body := ''I am away until Monday.'',
         headers := [(''From'', ''bob@example.org''), (''Auto-Submitted'', ''auto-replied'')] \<rparr>"







definition second_report_email :: email_data where
  "second_report_email =
     report_email \<lparr> ed_recipient := ''carol@example.net'', ed_delay_days := 3 \<rparr>"

text \<open>
  Schedulers over an email manager that only counts the calls of
  \<open>process_pending_followups\<close>: one whose every call raises, one whose calls succeed.
\<close>

definition failing_process :: "nat \<Rightarrow> exn option \<times> nat" where
  "failing_process m = (Some (OtherException ''ConnectionError''), m + 1)"

definition counting_process :: "nat \<Rightarrow> exn option \<times> nat" where
  "counting_process m = (None, m + 1)"

definition two_failures_run :: "nat scheduler" where
  "two_failures_run =
     check_emails failing_process 1800000 (start failing_process 0 (new_scheduler 0))"

definition three_failures_run :: "nat scheduler" where
  "three_failures_run = check_emails failing_process 3600000 two_failures_run"

definition idle_scheduler :: "nat scheduler" where
  "idle_scheduler = new_scheduler 0"

definition started_scheduler :: "nat scheduler" where
  "started_scheduler = start counting_process 0 (new_scheduler 0)"


section \<open>Unfolding rules and frame lemmas\<close>

lemmas scenario_defs =
  initial_engine_def report_key_def report_email_def quiet_env_def registered_engine_def
  genuine_reply_def reply_env_def vacation_notice_def empty_database_def

lemmas engine_defs =
  add_followup_def db_add_followup_def make_followup_data_def generate_email_id_def
  calculate_followup_date_def timedelta_days_def new_row_def write_log_def next_tick_def
  get_pending_followups_def get_followup_by_email_id_def fits_int64_def text_of_int_def
  digit_char_def update_followup_status_def update_row_def
  check_for_replies_def check_for_responses_try_def check_for_responses_def
  send_followup_try_def send_followup_def process_pending_followups_def


lemmas scheduler_defs =
  check_emails_def start_def stop_def force_check_def emit_def log_scheduler_def
  new_scheduler_def max_retries_def check_interval_def error_notifications_def

lemma write_log_simps [simp]:
  "db (write_log l st) = db st"
  "outbox (write_log l st) = outbox st"
  "tick (write_log l st) = tick st"
  "imap_is_connected (write_log l st) = imap_is_connected st"
  by (simp_all add: write_log_def)

lemma next_tick_simps [simp]:
  "db (next_tick st) = db st"
  "outbox (next_tick st) = outbox st"
  "imap_is_connected (next_tick st) = imap_is_connected st"
  by (simp_all add: next_tick_def)


lemma check_for_responses_no_raise:
  "\<exists>b. fst (check_for_responses e st i) = Inr b"
  by (auto simp: check_for_responses_def split: prod.splits sum.splits)

lemma send_followup_no_raise:
  "\<exists>b. fst (send_followup e st i) = Inr b"
  by (auto simp: send_followup_def split: prod.splits sum.splits)





lemma check_for_responses_result:
  "\<exists>b st1. check_for_responses e st i = (Inr b, st1)"
  by (auto simp: check_for_responses_def split: prod.splits sum.splits)

lemma send_followup_result:
  "\<exists>b st1. send_followup e st i = (Inr b, st1)"
  by (auto simp: send_followup_def split: prod.splits sum.splits)

lemma process_loop_handles_all:
  "process_loop e st pending = (None, foldl (handle_followup e) st pending)"
proof (induction pending arbitrary: st)
  case Nil
  show ?case by simp
next
  case (Cons followup pending)
  obtain b st1 where c: "check_for_responses e st (row_id followup) = (Inr b, st1)"
    using check_for_responses_result by blast
  obtain b' st2 where s: "send_followup e st1 (row_id followup) = (Inr b', st2)"
    using send_followup_result by blast
  show ?case
  proof (cases b)
    case True
    with c show ?thesis by (simp add: Cons.IH handle_followup_def)
  next
    case False
    with c s show ?thesis by (simp add: Cons.IH handle_followup_def)
  qed
qed


section \<open>Status only moves forward\<close>
















section \<open>Looking a row up by its \<open>id\<close>\<close>

text \<open>
  The decimal text of a 64-bit integer has at most 20 characters, so it is never one of the
  keys of a table that holds digests: \<open>get_followup_by_email_id\<close>, given the \<open>id\<close> of a
  row, finds nothing there, and a pass of \<open>process_pending_followups\<close> changes no row and
  sends nothing.
\<close>

lemma length_text_of_nat:
  "n < 10 ^ k \<Longrightarrow> 0 < k \<Longrightarrow> length (text_of_nat n) \<le> k"
proof (induction n arbitrary: k rule: text_of_nat.induct)
  case (1 n)
  show ?case
  proof (cases "n < 10")
    case True
    with "1.prems" show ?thesis by (subst text_of_nat.simps) simp
  next
    case False
    then obtain k' where k: "k = Suc k'" using "1.prems" by (cases k) auto
    with False "1.prems" have k': "0 < k'" by (cases k') auto
    from "1.prems" k have "n div 10 < 10 ^ k'" by (simp add: less_mult_imp_div_less mult.commute)
    with "1.IH" [OF False this k'] k False show ?thesis
      by (subst text_of_nat.simps) simp
  qed
qed

lemma length_text_of_int:
  assumes "fits_int64 i"
  shows "length (text_of_int i) \<le> 20"
proof -
  have b: "(2::nat) ^ 63 < 10 ^ 19" by simp
  show ?thesis
  proof (cases "i < 0")
    case True
    with assms have "nat (- i) \<le> 2 ^ 63" by (auto simp: fits_int64_def nat_le_iff)
    with b have "nat (- i) < 10 ^ 19" by linarith
    then have "length (text_of_nat (nat (- i))) \<le> 19" by (rule length_text_of_nat) simp
    with True show ?thesis by (simp add: text_of_int_def)
  next
    case False
    with assms have "nat i < 2 ^ 63" by (auto simp: fits_int64_def nat_less_iff)
    with b have "nat i < 10 ^ 19" by linarith
    then have "length (text_of_nat (nat i)) \<le> 19" by (rule length_text_of_nat) simp
    with False show ?thesis by (simp add: text_of_int_def)
  qed
qed

lemma digest_keys_lookup:
  assumes "digest_keys d"
  shows "\<forall>f. get_followup_by_email_id d i \<noteq> Inr (Some f)"
proof (cases "fits_int64 i")
  case False
  then show ?thesis by (simp add: get_followup_by_email_id_def)
next
  case True
  have "find (\<lambda>r. email_id r = text_of_int i) (rows d) = None"
  proof (rule ccontr)
    assume "find (\<lambda>r. email_id r = text_of_int i) (rows d) \<noteq> None"
    then obtain r where "r \<in> set (rows d)" "email_id r = text_of_int i"
      by (auto simp: find_None_iff)
    with assms have "length (text_of_int i) = 32" by (auto simp: digest_keys_def list_all_iff)
    with length_text_of_int [OF True] show False by simp
  qed
  with True show ?thesis by (simp add: get_followup_by_email_id_def)
qed

lemma lookup_miss:
  assumes "isl (get_followup_by_email_id (db st) i)
           \<or> get_followup_by_email_id (db st) i = Inr None"
  shows "\<exists>l. check_for_responses e st i = (Inr False, write_log l st)"
    and "\<exists>l. send_followup e st i = (Inr False, write_log l st)"
  using assms
  by (cases "get_followup_by_email_id (db st) i";
      auto simp: check_for_responses_def check_for_responses_try_def
                 send_followup_def send_followup_try_def)+

lemma digest_keys_miss:
  "digest_keys d \<Longrightarrow>
     isl (get_followup_by_email_id d i) \<or> get_followup_by_email_id d i = Inr None"
  using digest_keys_lookup [of d i]
  by (cases "get_followup_by_email_id d i") auto

lemma digest_keys_handle_followup:
  assumes "digest_keys (db st)"
  shows "db (handle_followup e st followup) = db st
       \<and> outbox (handle_followup e st followup) = outbox st"
proof -
  note miss = digest_keys_miss [OF assms, of "row_id followup"]
  obtain l where c: "check_for_responses e st (row_id followup) = (Inr False, write_log l st)"
    using lookup_miss(1) [OF miss] by blast
  have "isl (get_followup_by_email_id (db (write_log l st)) (row_id followup))
        \<or> get_followup_by_email_id (db (write_log l st)) (row_id followup) = Inr None"
    using miss by simp
  then obtain l' where
    "send_followup e (write_log l st) (row_id followup) = (Inr False, write_log l' (write_log l st))"
    using lookup_miss(2) by blast
  with c show ?thesis by (simp add: handle_followup_def)
qed

lemma digest_keys_foldl:
  "digest_keys (db st) \<Longrightarrow>
     db (foldl (handle_followup e) st pending) = db st
     \<and> outbox (foldl (handle_followup e) st pending) = outbox st"
proof (induction pending arbitrary: st)
  case Nil
  show ?case by simp
next
  case (Cons followup pending)
  from digest_keys_handle_followup [OF Cons.prems, of e followup]
  have same: "db (handle_followup e st followup) = db st"
    "outbox (handle_followup e st followup) = outbox st" by simp_all
  with Cons.prems have "digest_keys (db (handle_followup e st followup))" by simp
  from Cons.IH [OF this] same show ?case by simp
qed

lemma digest_keys_process_pending_followups:
  assumes "digest_keys (db st)"
  shows "db (snd (process_pending_followups e st)) = db st
       \<and> outbox (snd (process_pending_followups e st)) = outbox st"
  using digest_keys_foldl [OF assms]
  by (simp add: process_pending_followups_def process_loop_handles_all)


section \<open>The claims\<close>

subsection \<open>C1: one week without a reply\<close>

text \<open>
  C1 says: for a record registered with a delay of 7 days and never answered, once the
  clock reaches the sent date plus 7 days, one run of \<open>process_pending_followups\<close> sends
  exactly one follow-up, after which the status is \<open>'sent'\<close> and \<open>followup_count\<close> is 1.
  The code does not do this. In the scenario the registration succeeds with row id 1 and
  the query returns the row as due, but the loop hands the row's \<open>id\<close> to
  \<open>check_for_responses\<close> and \<open>send_followup\<close>, which look it up in the column \<open>email_id\<close>:
  no row is found, no message is sent, the status is still \<open>'pending'\<close> and the count 0.
\<close>

theorem process_pending_followups_week_scenario:
  "fst (add_followup quiet_env initial_engine report_email) = Some 1
   \<and> map followup_date (rows (db registered_engine)) = [1704099600 + 7 * 86400]
   \<and> map row_id (get_pending_followups (db registered_engine) (current_timestamp quiet_env 0)) = [1]
   \<and> outbox (snd (process_pending_followups quiet_env registered_engine)) = []
   \<and> map status (rows (db (snd (process_pending_followups quiet_env registered_engine))))
       = [''pending'']
   \<and> map followup_count (rows (db (snd (process_pending_followups quiet_env registered_engine))))
       = [0]
   \<and> logged (snd (process_pending_followups quiet_env registered_engine))
       = [Info_added_followup 1, Error_followup_not_found 1, Error_followup_not_found 1]"
  by (simp add: scenario_defs engine_defs)


subsection \<open>C2: a duplicate registration is rejected\<close>

text \<open>
  C2: after a registration that succeeded, a second registration with the same sender,
  subject and sent date is rejected: the store raises \<open>IntegrityError\<close> for the duplicate
  key, \<open>add_followup\<close> returns \<open>None\<close>, and the table is the one it was (no second row, no
  row changed).
\<close>

theorem add_followup_rejects_duplicate:
  assumes first: "add_followup e st d1 = (Some followup_id, st1)"
      and same: "ed_sender d2 = ed_sender d1" "ed_subject d2 = ed_subject d1"
                "ed_sent_date d2 = ed_sent_date d1"
  shows "fst (db_add_followup (db st1) (make_followup_data e d2)) = Inl IntegrityError
       \<and> fst (add_followup e st1 d2) = None
       \<and> db (snd (add_followup e st1 d2)) = db st1"
proof -
  have key: "fd_email_id (make_followup_data e d2) = fd_email_id (make_followup_data e d1)"
    using same by (simp add: make_followup_data_def)
  have "fd_email_id (make_followup_data e d1) \<in> set (map email_id (rows (db st1)))"
    using first
    by (auto simp: add_followup_def db_add_followup_def Let_def new_row_def
             split: prod.splits sum.splits if_splits)
  with key have "fd_email_id (make_followup_data e d2) \<in> set (map email_id (rows (db st1)))"
    by simp
  then show ?thesis
    by (simp add: add_followup_def db_add_followup_def)
qed

text \<open>The report registered twice, the second time for another recipient and delay.\<close>

theorem add_followup_rejects_duplicate_witness:
  "add_followup quiet_env initial_engine report_email = (Some 1, registered_engine)
   \<and> ed_recipient second_report_email \<noteq> ed_recipient report_email
   \<and> fst (db_add_followup (db registered_engine) (make_followup_data quiet_env second_report_email))
       = Inl IntegrityError
   \<and> fst (add_followup quiet_env registered_engine second_report_email) = None
   \<and> db (snd (add_followup quiet_env registered_engine second_report_email)) = db registered_engine
   \<and> length (rows (db registered_engine)) = 1"
proof -
  have first: "add_followup quiet_env initial_engine report_email = (Some 1, registered_engine)"
    by (simp add: scenario_defs engine_defs)
  have same: "ed_sender second_report_email = ed_sender report_email"
    "ed_subject second_report_email = ed_subject report_email"
    "ed_sent_date second_report_email = ed_sent_date report_email"
    by (simp_all add: second_report_email_def)
  have other: "ed_recipient second_report_email \<noteq> ed_recipient report_email"
    "length (rows (db registered_engine)) = 1"
    by (simp_all add: second_report_email_def scenario_defs engine_defs)
  from add_followup_rejects_duplicate [OF first same] first other show ?thesis by simp
qed


subsection \<open>C3: a genuine reply\<close>

text \<open>
  C3 says: \<open>check_for_responses\<close> marks the record \<open>'responded'\<close> and returns true exactly
  when the search yields a message that refers to the record's key and is not automatic.
  The code does not do this. In the scenario the mailbox holds such a message, and
  \<open>check_for_replies\<close>, given the key, returns it; but \<open>check_for_responses\<close>, given the
  row's \<open>id\<close> as the reconciliation gives it, looks the \<open>id\<close> up in \<open>email_id\<close>, finds no
  row, returns \<open>False\<close> without asking the mailbox, and the status stays \<open>'pending'\<close>.
\<close>

theorem check_for_responses_misses_genuine_reply:
  "map email_id (rows (db registered_engine)) = [report_key]
   \<and> map row_id (rows (db registered_engine)) = [1]
   \<and> fst (check_for_replies reply_env registered_engine report_key ''Quarterly report'')
       = Inr [genuine_reply]
   \<and> fst (check_for_responses reply_env registered_engine 1) = Inr False
   \<and> tick (snd (check_for_responses reply_env registered_engine 1)) = tick registered_engine
   \<and> map status (rows (db (snd (check_for_responses reply_env registered_engine 1))))
       = [''pending'']"
  by code_simp


subsection \<open>C4: automatic replies\<close>

text \<open>
  C4 says: a message that refers to the key is automatic exactly when one of the marker
  header names is among its headers, compared without regard to case, or its lower-cased
  body contains one of the configured phrases. The code compares the header names as
  they are spelled: a message with the header \<open>Auto-Submitted\<close> and no phrase in its
  body is not classified automatic, while the same message with the name in lower case
  is.
\<close>

theorem is_auto_reply_header_case_sensitive:
  "is_reply_to report_key vacation_notice
   \<and> map fst (headers vacation_notice) = [''From'', ''Auto-Submitted'']
   \<and> \<not> is_auto_reply vacation_notice
   \<and> fst (check_for_replies
            (quiet_env \<lparr> imap_search_fetch := (\<lambda>n subj. Inr [vacation_notice]) \<rparr>)
            registered_engine report_key ''Quarterly report'') = Inr [vacation_notice]
   \<and> is_auto_reply (vacation_notice \<lparr> headers := [(''auto-submitted'', ''auto-replied'')] \<rparr>)"
  by code_simp


subsection \<open>C5: a follow-up that could not be sent\<close>




subsection \<open>C6: one failing record does not end the pass\<close>




subsection \<open>C7: the error count of the scheduler\<close>

text \<open>
  C7, amended: a check cycle that succeeds sets the error count to 0 and emits no error
  notification; a cycle that fails adds 1 to the count and emits exactly one error
  notification, the same \<open>error_occurred\<close> signal whether or not the count has reached
  \<open>max_errors\<close>; when the count reaches \<open>max_errors\<close> the scheduler is not running
  afterwards, and the timer of a scheduler that was running is stopped; below
  \<open>max_errors\<close> a failing cycle leaves \<open>is_running\<close> as it was. Reaching the maximum emits
  no notification of its own.
\<close>

theorem check_emails_error_count:
  "(fst (process (email_manager s)) = None \<longrightarrow>
       error_count (check_emails process now s) = 0
     \<and> is_running (check_emails process now s) = is_running s
     \<and> error_notifications (check_emails process now s) = error_notifications s)
 \<and> (fst (process (email_manager s)) = Some x \<longrightarrow>
       error_count (check_emails process now s) = error_count s + 1
     \<and> error_notifications (check_emails process now s) = error_notifications s @ [Error_occurred x]
     \<and> (error_count s + 1 \<ge> max_errors s \<longrightarrow>
           \<not> is_running (check_emails process now s)
         \<and> (is_running s \<longrightarrow> timer_fires_at (check_emails process now s) = None))
     \<and> (error_count s + 1 < max_errors s \<longrightarrow>
           is_running (check_emails process now s) = is_running s))"
  by (cases "process (email_manager s)")
     (auto simp: check_emails_def emit_def log_scheduler_def stop_def Let_def
                 error_notifications_def)

text \<open>After two failures of three allowed: a success resets the count, a failure stops.\<close>

theorem check_emails_error_count_witness:
  "fst (counting_process (email_manager two_failures_run)) = None
   \<and> error_count (check_emails counting_process 3600000 two_failures_run) = 0
   \<and> is_running (check_emails counting_process 3600000 two_failures_run)
   \<and> fst (failing_process (email_manager two_failures_run)) = Some (OtherException ''ConnectionError'')
   \<and> error_count two_failures_run + 1 \<ge> max_errors two_failures_run
   \<and> is_running two_failures_run
   \<and> error_count three_failures_run = 3
   \<and> \<not> is_running three_failures_run
   \<and> timer_fires_at three_failures_run = None"
proof -
  have run: "is_running two_failures_run" "error_count two_failures_run = 2"
    "max_errors two_failures_run = 3"
    by (simp_all add: two_failures_run_def failing_process_def scheduler_defs)
  have ok: "fst (counting_process (email_manager two_failures_run)) = None"
    by (simp add: counting_process_def)
  have bad: "fst (failing_process (email_manager two_failures_run))
             = Some (OtherException ''ConnectionError'')"
    by (simp add: failing_process_def)
  from check_emails_error_count
         [where process = counting_process and s = two_failures_run and now = 3600000] ok run
  have 1: "error_count (check_emails counting_process 3600000 two_failures_run) = 0
           \<and> is_running (check_emails counting_process 3600000 two_failures_run)"
    by simp
  from check_emails_error_count
         [where process = failing_process and s = two_failures_run and now = 3600000
            and x = "OtherException ''ConnectionError''"]
    bad run
  have 2: "error_count three_failures_run = 3 \<and> \<not> is_running three_failures_run
           \<and> timer_fires_at three_failures_run = None"
    by (simp add: three_failures_run_def)
  from 1 2 ok bad run show ?thesis by simp
qed

text \<open>
  C7 as it is written fails: with \<open>max_errors = 3\<close>, a scheduler started on an email
  manager that raises in every cycle stops after the third cycle, and by then it has
  emitted three error notifications, not one; the third cycle emits what the first two
  did.
\<close>

theorem check_emails_three_failures_notifications:
  "max_errors (new_scheduler (0::nat)) = 3
   \<and> \<not> is_running three_failures_run
   \<and> email_manager three_failures_run = 3
   \<and> emitted three_failures_run =
       [Check_started, Check_completed False, Error_occurred (OtherException ''ConnectionError''),
        Check_started, Check_completed False, Error_occurred (OtherException ''ConnectionError''),
        Check_started, Check_completed False, Error_occurred (OtherException ''ConnectionError'')]
   \<and> length (error_notifications three_failures_run) = 3
   \<and> length (error_notifications three_failures_run) \<noteq> 1"
  by (simp add: three_failures_run_def two_failures_run_def failing_process_def scheduler_defs)


subsection \<open>C8: a forced check\<close>

text \<open>
  C8, amended: \<open>force_check\<close> on a scheduler that is not running runs no check cycle: it
  logs a warning and changes nothing else. On a running scheduler whose cycle succeeds it
  runs exactly one cycle, the scheduler stays running, and the timer is started again:
  its next firing is one full interval after the forced check.
\<close>

theorem force_check_cycles:
  "(\<not> is_running s \<longrightarrow>
       force_check process now s = log_scheduler Warning_cannot_force_check s)
 \<and> (is_running s \<and> fst (process (email_manager s)) = None \<longrightarrow>
       email_manager (force_check process now s) = snd (process (email_manager s))
     \<and> emitted (force_check process now s)
         = emitted s @ [Check_started, Check_completed True]
     \<and> is_running (force_check process now s)
     \<and> timer_fires_at (force_check process now s) = Some (now + timer_interval s))"
  by (cases "process (email_manager s)")
     (auto simp: force_check_def check_emails_def emit_def log_scheduler_def Let_def)

text \<open>
  A new scheduler, and one started at time 0 and forced at time 1000: the timer that was
  due at 1800000 is due at 1801000 afterwards.
\<close>

theorem force_check_cycles_witness:
  "\<not> is_running idle_scheduler
   \<and> force_check counting_process 1000 idle_scheduler
       = log_scheduler Warning_cannot_force_check idle_scheduler
   \<and> is_running started_scheduler
   \<and> fst (counting_process (email_manager started_scheduler)) = None
   \<and> timer_fires_at started_scheduler = Some 1800000
   \<and> email_manager started_scheduler = 1
   \<and> email_manager (force_check counting_process 1000 started_scheduler) = 2
   \<and> is_running (force_check counting_process 1000 started_scheduler)
   \<and> timer_fires_at (force_check counting_process 1000 started_scheduler) = Some 1801000"
proof -
  have idle: "\<not> is_running idle_scheduler"
    by (simp add: idle_scheduler_def new_scheduler_def)
  have started: "is_running started_scheduler" "timer_fires_at started_scheduler = Some 1800000"
    "email_manager started_scheduler = 1" "timer_interval started_scheduler = 1800000"
    by (simp_all add: started_scheduler_def counting_process_def scheduler_defs)
  have ok: "fst (counting_process (email_manager started_scheduler)) = None"
    by (simp add: counting_process_def)
  from force_check_cycles [where process = counting_process and s = idle_scheduler and now = 1000]
    idle
  have 1: "force_check counting_process 1000 idle_scheduler
           = log_scheduler Warning_cannot_force_check idle_scheduler"
    by simp
  from force_check_cycles
         [where process = counting_process and s = started_scheduler and now = 1000]
    started ok
  have 2: "email_manager (force_check counting_process 1000 started_scheduler) = 2
           \<and> is_running (force_check counting_process 1000 started_scheduler)
           \<and> timer_fires_at (force_check counting_process 1000 started_scheduler) = Some 1801000"
    by (simp add: counting_process_def)
  from idle started ok 1 2 show ?thesis by simp
qed

text \<open>
  C8 as it is written fails: on a scheduler that is not running, \<open>force_check\<close> performs
  no reconciliation (the email manager has counted no call) and emits no signal.
\<close>

theorem force_check_not_running_no_reconciliation:
  "\<not> is_running idle_scheduler
   \<and> email_manager idle_scheduler = 0
   \<and> email_manager (force_check counting_process 1000 idle_scheduler) = 0
   \<and> email_manager (force_check counting_process 1000 idle_scheduler) \<noteq> 1
   \<and> emitted (force_check counting_process 1000 idle_scheduler) = []
   \<and> scheduler_logged (force_check counting_process 1000 idle_scheduler)
       = [Warning_cannot_force_check]"
  by (simp add: idle_scheduler_def counting_process_def scheduler_defs)


subsection \<open>C9: no way back to pending\<close>




subsection \<open>C10: an identifier without a record\<close>

text \<open>
  C10: when the lookup of the identifier gives no row (it finds none, or binding the
  identifier raises), \<open>check_for_responses\<close> and \<open>send_followup\<close> return \<open>False\<close>, no
  exception leaves them, and the table, the messages sent and the number of requests to
  the mail servers are what they were.
\<close>

theorem missing_record_returns_false:
  assumes "isl (get_followup_by_email_id (db st) i)
           \<or> get_followup_by_email_id (db st) i = Inr None"
  shows "fst (check_for_responses e st i) = Inr False
       \<and> db (snd (check_for_responses e st i)) = db st
       \<and> outbox (snd (check_for_responses e st i)) = outbox st
       \<and> tick (snd (check_for_responses e st i)) = tick st
       \<and> fst (send_followup e st i) = Inr False
       \<and> db (snd (send_followup e st i)) = db st
       \<and> outbox (snd (send_followup e st i)) = outbox st
       \<and> tick (snd (send_followup e st i)) = tick st"
  using assms
  by (cases "get_followup_by_email_id (db st) i")
     (auto simp: check_for_responses_def check_for_responses_try_def
                 send_followup_def send_followup_try_def)

text \<open>The identifier 1 in the table that holds the registered report under its digest.\<close>

theorem missing_record_returns_false_witness:
  "map row_id (rows (db registered_engine)) = [1]
   \<and> get_followup_by_email_id (db registered_engine) 1 = Inr None
   \<and> fst (check_for_responses quiet_env registered_engine 1) = Inr False
   \<and> fst (send_followup quiet_env registered_engine 1) = Inr False
   \<and> db (snd (send_followup quiet_env registered_engine 1)) = db registered_engine
   \<and> outbox (snd (send_followup quiet_env registered_engine 1)) = []"
proof -
  have rows: "map row_id (rows (db registered_engine)) = [1]"
    and miss: "get_followup_by_email_id (db registered_engine) 1 = Inr None"
    and out: "outbox registered_engine = []"
    by (simp_all add: scenario_defs engine_defs)
  from missing_record_returns_false [where st = registered_engine and i = 1 and e = quiet_env]
    miss rows out
  show ?thesis by simp
qed

end
